theory Spec2Isabelle
  imports Complex_Main
begin

section \<open>FluidGlass.js: data model\<close>

text \<open>
  The component file \<open>src/components/FluidGlass.js\<close> is embedded function by function.
  JavaScript numbers are modelled as \<open>real\<close> (exact arithmetic: no rounding, no NaN, no
  Infinity); \<open>window.innerWidth\<close>, a whole number of CSS pixels, as \<open>int\<close>; array indices
  and pixel sizes of a texture as \<open>nat\<close>. A props object is a map from property names to
  values, \<open>undefined\<close> being \<open>None\<close>. Where a property turns on rounding, the arithmetic
  of the source is repeated with the result of every operation rounded to a double
  (\<open>round_double\<close> below).
\<close>

datatype jsval = Num real | Str string | Null | BufferTexture

definition nullish :: "jsval option \<Rightarrow> bool" where
  \<comment> \<open>\<open>v == null\<close>: true of \<open>undefined\<close> and of \<open>null\<close>\<close>
  "nullish v = (v = None \<or> v = Some Null)"

definition coalesce :: "jsval option \<Rightarrow> jsval \<Rightarrow> jsval" where
  \<comment> \<open>\<open>v ?? d\<close>\<close>
  "coalesce v d = (case v of None \<Rightarrow> d | Some Null \<Rightarrow> d | Some x \<Rightarrow> x)"

record nav_item =
  label :: string
  link :: string

record viewport =
  width :: real
  height :: real

datatype device = mobile | tablet | desktop

section \<open>Breakpoints\<close>

subsection \<open>NavItems\<close>

record nav_device =
  max_w :: "int option"  \<comment> \<open>\<open>None\<close> is \<open>Infinity\<close>\<close>
  spacing :: real
  fontSize :: real

definition NavItems_DEVICE :: "device \<Rightarrow> nav_device" where
  "NavItems_DEVICE d =
     (case d of
        mobile \<Rightarrow> \<lparr>max_w = Some 639, spacing = 0.2, fontSize = 0.035\<rparr>
      | tablet \<Rightarrow> \<lparr>max_w = Some 1023, spacing = 0.24, fontSize = 0.045\<rparr>
      | desktop \<Rightarrow> \<lparr>max_w = None, spacing = 0.3, fontSize = 0.045\<rparr>)"

definition le_max :: "int \<Rightarrow> int option \<Rightarrow> bool" where
  \<comment> \<open>\<open>w <= m\<close> where \<open>m\<close> may be \<open>Infinity\<close>\<close>
  "le_max w m = (case m of None \<Rightarrow> True | Some k \<Rightarrow> w \<le> k)"

definition NavItems_getDevice :: "int \<Rightarrow> device" where
  "NavItems_getDevice w =
     (if le_max w (max_w (NavItems_DEVICE mobile)) then mobile
      else if le_max w (max_w (NavItems_DEVICE tablet)) then tablet
      else desktop)"

subsection \<open>Typography\<close>

record typo_device =
  titleFontSize :: real
  smallFontSize :: real

definition Typography_DEVICE :: "device \<Rightarrow> typo_device" where
  "Typography_DEVICE d =
     (case d of
        mobile \<Rightarrow> \<lparr>titleFontSize = 0.2 * 0.75, smallFontSize = 0.1 * 0.75\<rparr>
      | tablet \<Rightarrow> \<lparr>titleFontSize = 0.32 * 0.75, smallFontSize = 0.12 * 0.75\<rparr>
      | desktop \<Rightarrow> \<lparr>titleFontSize = 0.56 * 0.75, smallFontSize = 0.15 * 0.75\<rparr>)"

definition Typography_getDevice :: "int \<Rightarrow> device" where
  "Typography_getDevice w =
     (if w \<le> 639 then mobile else if w \<le> 1023 then tablet else desktop)"

section \<open>Title fade\<close>

definition titleOpacity :: "real \<Rightarrow> real" where
  "titleOpacity scrollProgress = max 0 (1 - scrollProgress * 4)"

record title_text =
  text_fontSize :: real
  material_opacity :: real
  visible :: bool

definition Typography :: "device \<Rightarrow> real \<Rightarrow> title_text" where
  \<comment> \<open>the props of the rendered title, from the device held in state and \<open>scroll.offset\<close>\<close>
  "Typography dev scroll_offset =
     \<lparr>text_fontSize = titleFontSize (Typography_DEVICE dev),
      material_opacity = titleOpacity scroll_offset,
      visible = (titleOpacity scroll_offset > 0)\<rparr>"

section \<open>Image selection\<close>

text \<open>
  \<open>Images\<close> holds \<open>selectedImage\<close>, \<open>null\<close> or an index. Three handlers change it: the
  click handler handed to every image, and the click and keydown listeners on the window.
  An event is the handler that runs together with what it reads from the event object.
\<close>

type_synonym selection = "nat option"

datatype event =
    ImageClick nat       \<comment> \<open>\<open>onImageClick(index)\<close>\<close>
  | WindowClick string   \<comment> \<open>\<open>e.target.tagName\<close>\<close>
  | KeyDown string       \<comment> \<open>\<open>e.key\<close>\<close>

definition handleImageClick :: "selection \<Rightarrow> nat \<Rightarrow> selection" where
  "handleImageClick selectedImage index =
     (if selectedImage = Some index then None else Some index)"

definition handleGlobalClick :: "selection \<Rightarrow> string \<Rightarrow> selection" where
  "handleGlobalClick selectedImage tagName =
     (if tagName = ''CANVAS'' then None else selectedImage)"

definition handleKeyDown :: "selection \<Rightarrow> string \<Rightarrow> selection" where
  "handleKeyDown selectedImage key =
     (if key = ''Escape'' then None else selectedImage)"

fun dispatch :: "selection \<Rightarrow> event \<Rightarrow> selection" where
  "dispatch s (ImageClick i) = handleImageClick s i"
| "dispatch s (WindowClick t) = handleGlobalClick s t"
| "dispatch s (KeyDown k) = handleKeyDown s k"

definition run_events :: "event list \<Rightarrow> selection" where
  \<comment> \<open>the state after the events, from \<open>useState(null)\<close>\<close>
  "run_events es = foldl dispatch None es"

definition isSelected :: "selection \<Rightarrow> nat \<Rightarrow> bool" where
  \<comment> \<open>\<open>selectedImage === index\<close>, computed by every image\<close>
  "isSelected selectedImage index = (selectedImage = Some index)"

definition selected_indices :: "selection \<Rightarrow> nat \<Rightarrow> nat list" where
  \<comment> \<open>the images, of \<open>n\<close> rendered, that take the selected branch\<close>
  "selected_indices selectedImage n = filter (isSelected selectedImage) [0..<n]"

definition backdrop_shown :: "selection \<Rightarrow> bool" where
  "backdrop_shown selectedImage = (selectedImage \<noteq> None)"

section \<open>Navigation labels\<close>

definition NavItems_children :: "nav_item list \<Rightarrow> real list" where
  \<comment> \<open>\<open>items.map\<close> renders one text per item; a child is its \<open>position.x\<close>, initially 0\<close>
  "NavItems_children items = map (\<lambda>_. 0) items"

definition NavItems_useFrame :: "nav_item list \<Rightarrow> real \<Rightarrow> real list \<Rightarrow> real list" where
  \<comment> \<open>\<open>children.forEach((child, i) => child.position.x = ...)\<close>\<close>
  "NavItems_useFrame items spc children =
     map (\<lambda>(i, child). (real i - (real (length items) - 1) / 2) * spc) (enumerate 0 children)"

definition NavItems_layout :: "device \<Rightarrow> nav_item list \<Rightarrow> real list" where
  \<comment> \<open>the x of every label after a frame, the spacing read from the device table\<close>
  "NavItems_layout dev items =
     NavItems_useFrame items (spacing (NavItems_DEVICE dev)) (NavItems_children items)"

definition handleNavigate :: "string \<Rightarrow> (string \<times> string) option" where
  \<comment> \<open>which field of \<open>window.location\<close> is assigned, and the value\<close>
  "handleNavigate lnk =
     (if lnk = [] then None
      else if hd lnk = CHR ''#'' then Some (''hash'', lnk) else Some (''href'', lnk))"

section \<open>Images\<close>

record image =
  img_width :: nat
  img_height :: nat

definition aspectRatio :: "image \<Rightarrow> real" where
  "aspectRatio img = real (img_width img) / real (img_height img)"

definition truthy :: "real option \<Rightarrow> real option" where
  \<comment> \<open>\<open>if (x)\<close> on an optional number: \<open>undefined\<close> and 0 are falsy\<close>
  "truthy v = (case v of None \<Rightarrow> None | Some x \<Rightarrow> if x = 0 then None else Some x)"

definition baseScale :: "real \<Rightarrow> real option \<Rightarrow> real option \<Rightarrow> viewport \<Rightarrow> real \<times> real" where
  "baseScale a desiredWidth desiredHeight vp =
     (case truthy desiredWidth of
        Some dw \<Rightarrow> (dw, dw / a)
      | None \<Rightarrow>
          (case truthy desiredHeight of
             Some dh \<Rightarrow> (dh * a, dh)
           | None \<Rightarrow> (width vp * 0.4, width vp * 0.4 / a)))"

definition maxScaleFactor :: "viewport \<Rightarrow> real \<times> real \<Rightarrow> real" where
  "maxScaleFactor vp sc = min (width vp / fst sc) (min (height vp / snd sc) 1)"

definition imageScale :: "image \<Rightarrow> real option \<Rightarrow> real option \<Rightarrow> viewport \<Rightarrow> real \<times> real" where
  \<comment> \<open>\<open>scaleX\<close>, \<open>scaleY\<close> as the render leaves them\<close>
  "imageScale img desiredWidth desiredHeight vp =
     (let sc = baseScale (aspectRatio img) desiredWidth desiredHeight vp;
          f = maxScaleFactor vp sc
      in (fst sc * f, snd sc * f))"

subsection \<open>The same arithmetic in doubles\<close>

text \<open>
  A double holds a 53-bit significand: the exact result of an operation is rounded to the
  nearest multiple of \<open>2 ^ (e - 52)\<close>, where \<open>2 ^ e \<le> |x| < 2 ^ (e + 1)\<close>, a tie going
  to the even multiple. The exponent is not bounded here: overflow to Infinity and
  subnormal results are outside the model.
\<close>

definition round_even :: "real \<Rightarrow> int" where
  \<comment> \<open>the nearest integer, a tie to the even one\<close>
  "round_even m =
     (let f = \<lfloor>m\<rfloor>; r = m - of_int f
      in if r < 1 / 2 then f else if 1 / 2 < r then f + 1 else if even f then f else f + 1)"

definition round_double :: "real \<Rightarrow> real" where
  "round_double x =
     (if x = 0 then 0
      else (let e = \<lfloor>log 2 \<bar>x\<bar>\<rfloor> - 52
            in of_int (round_even (x / 2 powr of_int e)) * 2 powr of_int e))"

text \<open>
  The render-time scale once more, line by line, every quotient and product passed through
  the rounding \<open>rnd\<close>; with the identity for \<open>rnd\<close> it is \<open>imageScale\<close>. The literal
  \<open>0.4\<close> is a double too.
\<close>

definition aspectRatio_rnd :: "(real \<Rightarrow> real) \<Rightarrow> image \<Rightarrow> real" where
  "aspectRatio_rnd rnd img = rnd (real (img_width img) / real (img_height img))"

definition baseScale_rnd ::
  "(real \<Rightarrow> real) \<Rightarrow> real \<Rightarrow> real option \<Rightarrow> real option \<Rightarrow> viewport \<Rightarrow> real \<times> real" where
  "baseScale_rnd rnd a desiredWidth desiredHeight vp =
     (case truthy desiredWidth of
        Some dw \<Rightarrow> (dw, rnd (dw / a))
      | None \<Rightarrow>
          (case truthy desiredHeight of
             Some dh \<Rightarrow> (rnd (dh * a), dh)
           | None \<Rightarrow> (rnd (width vp * rnd 0.4), rnd (rnd (width vp * rnd 0.4) / a))))"

definition maxScaleFactor_rnd :: "(real \<Rightarrow> real) \<Rightarrow> viewport \<Rightarrow> real \<times> real \<Rightarrow> real" where
  "maxScaleFactor_rnd rnd vp sc =
     min (rnd (width vp / fst sc)) (min (rnd (height vp / snd sc)) 1)"

definition imageScale_rnd ::
  "(real \<Rightarrow> real) \<Rightarrow> image \<Rightarrow> real option \<Rightarrow> real option \<Rightarrow> viewport \<Rightarrow> real \<times> real" where
  "imageScale_rnd rnd img desiredWidth desiredHeight vp =
     (let sc = baseScale_rnd rnd (aspectRatio_rnd rnd img) desiredWidth desiredHeight vp;
          f = maxScaleFactor_rnd rnd vp sc
      in (rnd (fst sc * f), rnd (snd sc * f)))"

definition imageScale_double ::
  "image \<Rightarrow> real option \<Rightarrow> real option \<Rightarrow> viewport \<Rightarrow> real \<times> real" where
  \<comment> \<open>\<open>scaleX\<close>, \<open>scaleY\<close> as the render leaves them, in double arithmetic\<close>
  "imageScale_double = imageScale_rnd round_double"

subsection \<open>The frame callback of an image\<close>

definition selectedTargetScale :: "real \<Rightarrow> viewport \<Rightarrow> real \<times> real \<Rightarrow> real \<times> real" where
  \<comment> \<open>the selected branch of the frame callback; \<open>v\<close> is the viewport at depth 15\<close>
  "selectedTargetScale a v sc =
     (let maxWidth = width v * 0.8;
          maxHeight = height v * 0.8;
          t1 = (if fst sc > maxWidth then (maxWidth, maxWidth / a) else sc);
          t2 = (if snd t1 > maxHeight then (maxHeight * a, maxHeight) else t1)
      in t2)"

definition selectedTargetPosition :: "real \<Rightarrow> real \<Rightarrow> viewport \<Rightarrow> real \<times> real \<times> real" where
  "selectedTargetPosition scroll_offset pages vp =
     (0, - (scroll_offset * (pages - 1) * height vp), 15)"

definition selectedScale :: "image \<Rightarrow> real option \<Rightarrow> real option \<Rightarrow> viewport \<Rightarrow> viewport \<Rightarrow> real \<times> real" where
  \<comment> \<open>the scale a selected image is damped towards\<close>
  "selectedScale img desiredWidth desiredHeight vp v =
     selectedTargetScale (aspectRatio img) v (imageScale img desiredWidth desiredHeight vp)"

definition floatOffsetX :: "real \<Rightarrow> nat \<Rightarrow> real" where
  "floatOffsetX time index = sin (time * 0.4 + real index * 0.5) * 0.1"

definition floatOffsetY :: "real \<Rightarrow> nat \<Rightarrow> real" where
  "floatOffsetY time index = cos (time * 0.3 + real index * 0.08)"

definition floatOffsetZ :: "real \<Rightarrow> nat \<Rightarrow> real" where
  "floatOffsetZ time index = sin (time * 0.5 + real index * 0.7) * 0.2"

definition targetPosition :: "real \<times> real \<times> real \<Rightarrow> real \<Rightarrow> nat \<Rightarrow> real \<times> real \<times> real" where
  \<comment> \<open>the idle branch of the frame callback\<close>
  "targetPosition position time index =
     (case position of (px, py, pz) \<Rightarrow>
        (px + floatOffsetX time index, py + floatOffsetY time index, pz + floatOffsetZ time index))"

section \<open>The glass mesh\<close>

datatype wrapper = Lens | Bar | Cube

record geometry =
  boundingBox_min_x :: real  \<comment> \<open>as \<open>computeBoundingBox\<close> leaves them\<close>
  boundingBox_max_x :: real

record node =
  node_geometry :: "geometry option"

definition geometryKey :: "wrapper \<Rightarrow> string" where
  "geometryKey wr = (case wr of Lens \<Rightarrow> ''Cylinder'' | Bar \<Rightarrow> ''Cube'' | Cube \<Rightarrow> ''Cube'')"

definition lockToBottom :: "wrapper \<Rightarrow> bool" where
  "lockToBottom wr = (case wr of Lens \<Rightarrow> False | Bar \<Rightarrow> True | Cube \<Rightarrow> False)"

definition followPointer :: "wrapper \<Rightarrow> bool" where
  "followPointer wr = (case wr of Lens \<Rightarrow> True | Bar \<Rightarrow> False | Cube \<Rightarrow> True)"

definition lookup_geometry :: "(string \<rightharpoonup> node) \<Rightarrow> string \<Rightarrow> geometry option" where
  \<comment> \<open>\<open>nodes[geometryKey]?.geometry\<close>\<close>
  "lookup_geometry nodes k = (case nodes k of None \<Rightarrow> None | Some n \<Rightarrow> node_geometry n)"

definition geoWidth_effect :: "(string \<rightharpoonup> node) \<Rightarrow> string \<Rightarrow> real \<Rightarrow> real" where
  \<comment> \<open>the effect on \<open>geoWidthRef.current\<close>, whose value before is the third argument\<close>
  "geoWidth_effect nodes k current =
     (case lookup_geometry nodes k of
        None \<Rightarrow> current
      | Some geo \<Rightarrow>
          (let w = boundingBox_max_x geo - boundingBox_min_x geo
           in if w = 0 then 1 else w))"

definition geoWidthRef :: "(string \<rightharpoonup> node) \<Rightarrow> string \<Rightarrow> real" where
  \<comment> \<open>\<open>useRef(1)\<close>, then the effect\<close>
  "geoWidthRef nodes k = geoWidth_effect nodes k 1"

definition dest :: "wrapper \<Rightarrow> real \<times> real \<Rightarrow> viewport \<Rightarrow> real \<times> real \<times> real" where
  "dest wr pointer v =
     (let destX = (if followPointer wr then (fst pointer * width v) / 2 else 0);
          destY = (if lockToBottom wr then - height v / 2 + 0.2
                   else if followPointer wr then (snd pointer * height v) / 2 else 0)
      in (destX, destY, 15))"

definition mesh_scale_prop :: "(string \<rightharpoonup> jsval) \<Rightarrow> jsval" where
  \<comment> \<open>\<open>scale={scale ?? 0.15}\<close>\<close>
  "mesh_scale_prop modeProps = coalesce (modeProps ''scale'') (Num 0.15)"

definition useFrame_scale :: "(string \<rightharpoonup> jsval) \<Rightarrow> viewport \<Rightarrow> real \<Rightarrow> jsval \<Rightarrow> jsval" where
  \<comment> \<open>the scale of the mesh after a frame, from its scale before\<close>
  "useFrame_scale modeProps v geoWidth sc =
     (if nullish (modeProps ''scale'') then
        (let maxWorld = width v * 0.9;
             desired = maxWorld / geoWidth
         in Num (min 0.15 desired))
      else sc)"

definition glass_scale :: "(string \<rightharpoonup> node) \<Rightarrow> string \<Rightarrow> (string \<rightharpoonup> jsval) \<Rightarrow> viewport \<Rightarrow> jsval" where
  \<comment> \<open>mount, effect, one frame\<close>
  "glass_scale nodes k modeProps v =
     useFrame_scale modeProps v (geoWidthRef nodes k) (mesh_scale_prop modeProps)"

definition extraMat :: "(string \<rightharpoonup> jsval) \<Rightarrow> (string \<rightharpoonup> jsval)" where
  \<comment> \<open>the rest of the destructuring of \<open>modeProps\<close>\<close>
  "extraMat modeProps =
     (\<lambda>k. if k \<in> set [''scale'', ''ior'', ''thickness'', ''anisotropy'', ''chromaticAberration'']
          then None else modeProps k)"

definition material :: "(string \<rightharpoonup> jsval) \<Rightarrow> (string \<rightharpoonup> jsval)" where
  \<comment> \<open>the props of \<open>MeshTransmissionMaterial\<close>; the spread comes last\<close>
  "material modeProps =
     [''buffer'' \<mapsto> BufferTexture,
      ''ior'' \<mapsto> coalesce (modeProps ''ior'') (Num 1.15),
      ''thickness'' \<mapsto> coalesce (modeProps ''thickness'') (Num 5),
      ''anisotropy'' \<mapsto> coalesce (modeProps ''anisotropy'') (Num 0.01),
      ''chromaticAberration'' \<mapsto> coalesce (modeProps ''chromaticAberration'') (Num 0.1)]
     ++ extraMat modeProps"

definition defaultMat :: "string \<rightharpoonup> jsval" where
  "defaultMat =
     [''transmission'' \<mapsto> Num 1,
      ''roughness'' \<mapsto> Num 0,
      ''thickness'' \<mapsto> Num 10,
      ''ior'' \<mapsto> Num 1.15,
      ''color'' \<mapsto> Str ''#ffffff'',
      ''attenuationColor'' \<mapsto> Str ''#ffffff'',
      ''attenuationDistance'' \<mapsto> Num 0.25]"

definition wrapper_modeProps :: "wrapper \<Rightarrow> (string \<rightharpoonup> jsval) \<Rightarrow> (string \<rightharpoonup> jsval)" where
  \<comment> \<open>what \<open>Lens\<close>, \<open>Bar\<close> and \<open>Cube\<close> hand to \<open>ModeWrapper\<close>\<close>
  "wrapper_modeProps wr modeProps =
     (case wr of Lens \<Rightarrow> modeProps | Cube \<Rightarrow> modeProps | Bar \<Rightarrow> defaultMat ++ modeProps)"

section \<open>FluidGlass\<close>

record overrides =
  navItems :: "nav_item list option"
  props :: "string \<rightharpoonup> jsval"

definition Wrapper :: "string \<Rightarrow> wrapper" where
  "Wrapper mode = (if mode = ''bar'' then Bar else if mode = ''cube'' then Cube else Lens)"

definition rawOverrides :: "string \<Rightarrow> overrides \<Rightarrow> overrides \<Rightarrow> overrides \<Rightarrow> overrides" where
  "rawOverrides mode lensProps barProps cubeProps =
     (if mode = ''bar'' then barProps else if mode = ''cube'' then cubeProps else lensProps)"

definition default_navItems :: "nav_item list" where
  "default_navItems =
     [\<lparr>label = ''Home'', link = ''#home''\<rparr>,
      \<lparr>label = ''About'', link = ''#about''\<rparr>,
      \<lparr>label = ''Contact'', link = ''#contact''\<rparr>]"

record scene =
  scene_navItems :: "nav_item list"          \<comment> \<open>the destructured \<open>navItems\<close>\<close>
  scene_nav :: "nav_item list option"        \<comment> \<open>the items of \<open>NavItems\<close>, rendered in bar mode\<close>
  scene_wrapper :: wrapper
  scene_modeProps :: "string \<rightharpoonup> jsval"     \<comment> \<open>as \<open>ModeWrapper\<close> receives them\<close>
  scene_material :: "string \<rightharpoonup> jsval"

definition FluidGlass :: "string \<Rightarrow> overrides \<Rightarrow> overrides \<Rightarrow> overrides \<Rightarrow> scene" where
  "FluidGlass mode lensProps barProps cubeProps =
     (let raw = rawOverrides mode lensProps barProps cubeProps;
          items = (case navItems raw of None \<Rightarrow> default_navItems | Some xs \<Rightarrow> xs);
          modeProps = wrapper_modeProps (Wrapper mode) (props raw)
      in \<lparr>scene_navItems = items,
          scene_nav = (if mode = ''bar'' then Some items else None),
          scene_wrapper = Wrapper mode,
          scene_modeProps = modeProps,
          scene_material = material modeProps\<rparr>)"

definition no_overrides :: overrides where
  \<comment> \<open>the default \<open>{}\<close> of \<open>lensProps\<close>, \<open>barProps\<close> and \<open>cubeProps\<close>\<close>
  "no_overrides = \<lparr>navItems = None, props = Map.empty\<rparr>"

subsection \<open>The application\<close>

definition App_lensProps :: overrides where
  "App_lensProps =
     \<lparr>navItems = Some
        [\<lparr>label = ''Home'', link = ''#home''\<rparr>,
         \<lparr>label = ''About'', link = ''#about''\<rparr>,
         \<lparr>label = ''Projects'', link = ''#projects''\<rparr>,
         \<lparr>label = ''Contact'', link = ''#contact''\<rparr>],
      props = Map.empty\<rparr>"

definition App :: scene where
  "App = FluidGlass ''lens'' App_lensProps no_overrides no_overrides"

section \<open>Theorems\<close>

subsection \<open>Breakpoints\<close>

text \<open>
  C1. For every window width \<open>w\<close> the breakpoint is mobile when \<open>w \<le> 639\<close>, tablet when
  \<open>640 \<le> w \<le> 1023\<close> and desktop when \<open>w \<ge> 1024\<close>, and the navigation layout and the
  title compute the same breakpoint from the same width.
\<close>

theorem C1_breakpoint:
  "(w \<le> 639 \<longrightarrow> NavItems_getDevice w = mobile) \<and>
   (640 \<le> w \<and> w \<le> 1023 \<longrightarrow> NavItems_getDevice w = tablet) \<and>
   (1024 \<le> w \<longrightarrow> NavItems_getDevice w = desktop) \<and>
   Typography_getDevice w = NavItems_getDevice w"
  by (simp add: NavItems_getDevice_def Typography_getDevice_def NavItems_DEVICE_def le_max_def)

theorem C1_breakpoint_witness:
  "((639::int) \<le> 639 \<and> NavItems_getDevice 639 = mobile \<and> Typography_getDevice 639 = mobile) \<and>
   ((640::int) \<le> 640 \<and> (640::int) \<le> 1023 \<and> NavItems_getDevice 640 = tablet
      \<and> Typography_getDevice 640 = tablet) \<and>
   ((1024::int) \<le> 1024 \<and> NavItems_getDevice 1024 = desktop
      \<and> Typography_getDevice 1024 = desktop)"
  using C1_breakpoint [of 639] C1_breakpoint [of 640] C1_breakpoint [of 1024] by simp

subsection \<open>Title fade\<close>

text \<open>
  C2. For every scroll offset \<open>s\<close> in \<open>[0, 1]\<close> the opacity of the title is
  \<open>max 0 (1 - 4 * s)\<close> and the title is invisible exactly when that opacity is 0: the
  opacity is 1 at \<open>s = 0\<close>, 0 at \<open>s = 0.25\<close>, and 0 with the title invisible for every
  \<open>s > 0.25\<close>.
\<close>

theorem C2_title_opacity:
  assumes "0 \<le> s" and "s \<le> 1"
  shows "material_opacity (Typography dev s) = max 0 (1 - 4 * s) \<and>
         (\<not> visible (Typography dev s) \<longleftrightarrow> material_opacity (Typography dev s) = 0) \<and>
         material_opacity (Typography dev 0) = 1 \<and>
         material_opacity (Typography dev 0.25) = 0 \<and>
         (0.25 < s \<longrightarrow> material_opacity (Typography dev s) = 0 \<and> \<not> visible (Typography dev s))"
  by (auto simp add: Typography_def titleOpacity_def max_def)

theorem C2_title_opacity_witness:
  "(0::real) \<le> 0.5 \<and> (0.5::real) \<le> 1 \<and> (0.25::real) < 0.5 \<and>
   material_opacity (Typography desktop 0.5) = 0 \<and> \<not> visible (Typography desktop 0.5) \<and>
   material_opacity (Typography desktop 0) = 1"
  using C2_title_opacity [of "0.5" desktop] by simp

subsection \<open>Selection\<close>

lemma selected_indices_le_one: "length (selected_indices s n) \<le> 1"
proof (cases s)
  case None
  then show ?thesis by (simp add: selected_indices_def isSelected_def)
next
  case (Some k)
  have "filter (isSelected (Some k)) [0..<n] = (if k < n then [k] else [])"
    by (induction n) (auto simp add: isSelected_def)
  with Some show ?thesis by (simp add: selected_indices_def)
qed

text \<open>
  C3. After any finite sequence of image clicks, clicks on the background canvas and
  Escape presses, from no selection, at most one of the rendered images is selected. A
  click on the selected image leaves none selected, a click on another image leaves that
  image as the only one selected, and a click on the canvas or Escape leaves none
  selected.
\<close>

theorem C3_single_selection:
  "length (selected_indices (run_events es) n) \<le> 1 \<and>
   (isSelected (run_events es) i \<longrightarrow> run_events (es @ [ImageClick i]) = None) \<and>
   (\<not> isSelected (run_events es) i \<longrightarrow>
      run_events (es @ [ImageClick i]) = Some i \<and>
      (\<forall>j. isSelected (run_events (es @ [ImageClick i])) j \<longleftrightarrow> j = i)) \<and>
   run_events (es @ [WindowClick ''CANVAS'']) = None \<and>
   run_events (es @ [KeyDown ''Escape'']) = None"
  using selected_indices_le_one [of "run_events es" n]
  by (auto simp add: run_events_def isSelected_def handleImageClick_def
        handleGlobalClick_def handleKeyDown_def)

theorem C3_single_selection_witness:
  "run_events [ImageClick 2, ImageClick 5] = Some 5 \<and>
   selected_indices (run_events [ImageClick 2, ImageClick 5]) 8 = [5] \<and>
   isSelected (run_events [ImageClick 2, ImageClick 5]) 5 \<and>
   run_events ([ImageClick 2, ImageClick 5] @ [ImageClick 5]) = None \<and>
   \<not> isSelected (run_events [ImageClick 2, ImageClick 5]) 3 \<and>
   run_events ([ImageClick 2, ImageClick 5] @ [ImageClick 3]) = Some 3"
  using C3_single_selection [of "[ImageClick 2, ImageClick 5]" 8 5]
        C3_single_selection [of "[ImageClick 2, ImageClick 5]" 8 3]
  by (simp add: run_events_def isSelected_def handleImageClick_def selected_indices_def upt_rec)

subsection \<open>Navigation labels\<close>

lemma sum_real_upt: "(\<Sum>i<n. real i) = real n * (real n - 1) / 2"
  by (induction n) (simp_all add: field_simps)

lemma map_enumerate_index:
  "map (\<lambda>(i, child). g i) (enumerate 0 children) = map g [0..<length children]"
proof -
  have "map (\<lambda>(i, child). g i) (enumerate 0 children) = map (g \<circ> fst) (enumerate 0 children)"
    by (simp add: case_prod_unfold comp_def)
  also have "\<dots> = map g (map fst (enumerate 0 children))"
    by (simp only: map_map)
  finally show ?thesis by simp
qed

lemma NavItems_useFrame_eq:
  "NavItems_useFrame items s (NavItems_children items) =
     map (\<lambda>i. (real i - (real (length items) - 1) / 2) * s) [0..<length items]"
  by (simp add: NavItems_useFrame_def NavItems_children_def map_enumerate_index)

lemma centred_sum: "(\<Sum>i<n. (real i - (real n - 1) / 2) * s) = 0"
proof -
  have "(\<Sum>i<n. (real i - (real n - 1) / 2) * s)
          = ((\<Sum>i<n. real i) - real n * ((real n - 1) / 2)) * s"
    by (simp add: sum_subtractf sum_distrib_right [symmetric])
  then show ?thesis by (simp add: sum_real_upt)
qed

text \<open>
  C4. For every list of \<open>N \<ge> 1\<close> nav items and every spacing \<open>s\<close>, a frame places label
  \<open>i\<close> at \<open>x = (i - (N - 1) / 2) * s\<close>, and these offsets sum to 0.
\<close>

theorem C4_label_centering:
  assumes "1 \<le> length items"
  shows "length (NavItems_useFrame items s (NavItems_children items)) = length items \<and>
         (\<forall>i<length items.
            NavItems_useFrame items s (NavItems_children items) ! i
              = (real i - (real (length items) - 1) / 2) * s) \<and>
         sum_list (NavItems_useFrame items s (NavItems_children items)) = 0"
proof -
  let ?n = "length items"
  have "sum_list (map (\<lambda>i. (real i - (real ?n - 1) / 2) * s) [0..<?n])
          = (\<Sum>i<?n. (real i - (real ?n - 1) / 2) * s)"
    by (simp add: interv_sum_list_conv_sum_set_nat atLeast0LessThan)
  then show ?thesis
    by (simp add: NavItems_useFrame_eq centred_sum)
qed

theorem C4_label_centering_witness:
  "1 \<le> length default_navItems \<and>
   NavItems_useFrame default_navItems 0.3 (NavItems_children default_navItems) = [-0.3, 0, 0.3] \<and>
   sum_list (NavItems_useFrame default_navItems 0.3 (NavItems_children default_navItems)) = 0"
proof -
  have n: "1 \<le> length default_navItems" by (simp add: default_navItems_def)
  have "NavItems_useFrame default_navItems 0.3 (NavItems_children default_navItems)
          = [-0.3, 0, 0.3]"
    by (simp add: NavItems_useFrame_def NavItems_children_def default_navItems_def
          enumerate_eq_zip upt_rec)
  with n C4_label_centering [OF n, of "0.3"] show ?thesis by simp
qed

subsection \<open>Image scale\<close>

lemma aspectRatio_pos: "0 < img_width img \<Longrightarrow> 0 < img_height img \<Longrightarrow> 0 < aspectRatio img"
  by (simp add: aspectRatio_def)

lemma baseScale_pos:
  assumes "0 < a" and "0 < width vp"
    and "\<forall>w. desiredWidth = Some w \<longrightarrow> 0 < w"
    and "\<forall>h. desiredHeight = Some h \<longrightarrow> 0 < h"
  shows "0 < snd (baseScale a desiredWidth desiredHeight vp) \<and>
         fst (baseScale a desiredWidth desiredHeight vp)
           = a * snd (baseScale a desiredWidth desiredHeight vp)"
  using assms by (auto simp add: baseScale_def truthy_def split: option.splits)

lemma factor_bounds:
  fixes sx sy vw vh :: real
  assumes "0 < sx" and "0 < sy" and "0 < vw" and "0 < vh"
  shows "0 < min (vw / sx) (min (vh / sy) 1) \<and>
         sx * min (vw / sx) (min (vh / sy) 1) \<le> vw \<and>
         sy * min (vw / sx) (min (vh / sy) 1) \<le> vh"
proof -
  define f where "f = min (vw / sx) (min (vh / sy) 1)"
  have "f \<le> vw / sx" and "f \<le> vh / sy" by (simp_all add: f_def)
  then have "f * sx \<le> vw" and "f * sy \<le> vh"
    using assms(1,2) by (simp_all only: pos_le_divide_eq)
  moreover have "0 < f" using assms by (simp add: f_def)
  ultimately show ?thesis unfolding f_def [symmetric] by (simp add: mult.commute)
qed

lemma imageScale_props:
  assumes "0 < img_width img" and "0 < img_height img"
    and "0 < width vp" and "0 < height vp"
    and "\<forall>w. desiredWidth = Some w \<longrightarrow> 0 < w"
    and "\<forall>h. desiredHeight = Some h \<longrightarrow> 0 < h"
  shows "0 < snd (imageScale img desiredWidth desiredHeight vp) \<and>
         fst (imageScale img desiredWidth desiredHeight vp)
           = aspectRatio img * snd (imageScale img desiredWidth desiredHeight vp) \<and>
         fst (imageScale img desiredWidth desiredHeight vp) \<le> width vp \<and>
         snd (imageScale img desiredWidth desiredHeight vp) \<le> height vp"
proof -
  let ?a = "aspectRatio img"
  let ?sc = "baseScale ?a desiredWidth desiredHeight vp"
  have a: "0 < ?a" using assms(1,2) by (rule aspectRatio_pos)
  have sc: "0 < snd ?sc" "fst ?sc = ?a * snd ?sc"
    using baseScale_pos [OF a assms(3) assms(5) assms(6)] by simp_all
  then have fx: "0 < fst ?sc" using a by simp
  from factor_bounds [OF fx sc(1) assms(3) assms(4)] sc show ?thesis
    by (simp add: imageScale_def maxScaleFactor_def Let_def)
qed

lemma imageScale_rnd_exact:
  "imageScale_rnd (\<lambda>x. x) img desiredWidth desiredHeight vp
     = imageScale img desiredWidth desiredHeight vp"
  by (simp add: imageScale_rnd_def imageScale_def baseScale_rnd_def baseScale_def
        maxScaleFactor_rnd_def maxScaleFactor_def aspectRatio_rnd_def aspectRatio_def)

lemma round_even_bounds: "\<bar>of_int (round_even m) - m\<bar> \<le> 1 / 2"
  unfolding round_even_def Let_def by (auto simp: abs_if) linarith+

lemma round_double_bounds:
  assumes "0 < x"
  shows "0 < round_double x \<and> round_double x \<le> x * (1 + 1 / 2 ^ 53)"
proof -
  define k where "k = \<lfloor>log 2 x\<rfloor>"
  define s :: real where "s = 2 powr of_int (k - 52)"
  define n where "n = round_even (x / s)"
  have k: "2 powr of_int k \<le> x" "x < 2 powr (of_int k + 1)"
    using floor_log_eq_powr_iff [of x 2 k] assms by (simp_all add: k_def)
  have s: "0 < s" by (simp add: s_def)
  have sk: "s * 2 ^ 52 = 2 powr of_int k"
    by (simp add: s_def powr_diff)
  have rd: "round_double x = of_int n * s"
    using assms by (simp add: round_double_def Let_def n_def s_def k_def)
  have m: "2 ^ 52 \<le> x / s"
    using k(1) s sk by (simp add: pos_le_divide_eq mult.commute)
  have nb: "\<bar>of_int n - x / s\<bar> \<le> 1 / 2"
    unfolding n_def by (rule round_even_bounds)
  then have "x / s - 1 / 2 \<le> of_int n" by linarith
  moreover have "(1::real) \<le> 2 ^ 52" by simp
  ultimately have "(0::real) < of_int n" using m by linarith
  then have pos: "0 < of_int n * s" using s by simp
  from nb have "of_int n \<le> x / s + 1 / 2" by linarith
  then have "of_int n * s \<le> (x / s + 1 / 2) * s"
    using s by (simp only: mult_le_cancel_right_pos)
  also have "\<dots> = x + s / 2" using s by (simp add: field_simps)
  also have "s / 2 \<le> x / 2 ^ 53"
  proof -
    have "s * 2 ^ 52 \<le> x" using k(1) sk by simp
    then show ?thesis by (simp add: field_simps)
  qed
  finally have "of_int n * s \<le> x + x / 2 ^ 53" by simp
  then have "of_int n * s \<le> x * (1 + 1 / 2 ^ 53)" by (simp add: field_simps)
  with pos rd show ?thesis by simp
qed

lemma round_double_at:
  assumes "0 < x" and "2 powr of_int k \<le> x" and "x < 2 powr (of_int k + 1)"
    and "round_even (x / 2 powr of_int (k - 52)) = n"
  shows "round_double x = of_int n * 2 powr of_int (k - 52)"
proof -
  have "\<lfloor>log 2 x\<rfloor> = k"
    using floor_log_eq_powr_iff [of x 2 k] assms(1-3) by simp
  then show ?thesis using assms(1,4) by (simp add: round_double_def Let_def)
qed

text \<open>The doubles met at \<open>desiredWidth = 25\<close>, a square image and a viewport of 7 by 7.\<close>

lemma rd_1: "round_double 1 = 1"
  using round_double_at [of 1 0 "2 ^ 52"]
  by (simp add: powr_neg_numeral round_even_def)

lemma rd_25: "round_double 25 = 25"
  using round_double_at [of 25 4 "25 * 2 ^ 48"]
  by (simp add: powr_neg_numeral round_even_def)

lemma rd_7_25: "round_double (7 / 25) = 5044031582654956 / 2 ^ 54"
  using round_double_at [of "7 / 25" "-2" 5044031582654956]
  by (simp add: powr_neg_numeral round_even_def)

lemma rd_prod: "round_double (25 * (5044031582654956 / 2 ^ 54)) = 7 + 1 / 2 ^ 50"
  using round_double_at [of "25 * (5044031582654956 / 2 ^ 54)" 2 7881299347898369]
  by (simp add: powr_neg_numeral round_even_def)

lemma rd_prod_normal:
  "round_double (31525197391593475 / 4503599627370496) = 7 + 1 / 2 ^ 50"
  using rd_prod by simp

lemma baseScale_rnd_pos:
  assumes "0 < a" and "0 < width vp"
    and "\<forall>w. desiredWidth = Some w \<longrightarrow> 0 < w"
    and "\<forall>h. desiredHeight = Some h \<longrightarrow> 0 < h"
  shows "0 < fst (baseScale_rnd round_double a desiredWidth desiredHeight vp) \<and>
         0 < snd (baseScale_rnd round_double a desiredWidth desiredHeight vp)"
proof -
  have r: "\<And>x. 0 < x \<Longrightarrow> 0 < round_double x" using round_double_bounds by simp
  have "0 < round_double 0.4" by (rule r) simp
  then have "0 < round_double (width vp * round_double 0.4)" using assms(2) by (intro r) simp
  with assms r show ?thesis
    by (auto simp add: baseScale_rnd_def truthy_def split: option.splits)
qed

lemma clamp_rounded:
  assumes "0 < s" and "0 < v" and "0 < f" and "f \<le> round_double (v / s)"
  shows "round_double (s * f) \<le> v * (1 + 1 / 2 ^ 53)\<^sup>2"
proof -
  let ?u = "1 + 1 / 2 ^ 53 :: real"
  have u: "0 < ?u" by simp
  have "round_double (v / s) \<le> v / s * ?u"
    using round_double_bounds [of "v / s"] assms(1,2) by simp
  with assms(4) have "f \<le> v / s * ?u" by linarith
  then have "s * f \<le> s * (v / s * ?u)" using assms(1) by (simp only: mult_le_cancel_left_pos)
  also have "\<dots> = v * ?u" using assms(1) by simp
  finally have sf: "s * f \<le> v * ?u" .
  have "round_double (s * f) \<le> s * f * ?u"
    using round_double_bounds [of "s * f"] assms(1,3) by simp
  also have "\<dots> \<le> v * ?u * ?u" using sf u by (simp only: mult_le_cancel_right_pos)
  finally show ?thesis by (simp add: power2_eq_square mult.assoc)
qed

lemma imageScale_double_bounds:
  assumes "0 < img_width img" and "0 < img_height img"
    and "0 < width vp" and "0 < height vp"
    and "\<forall>w. desiredWidth = Some w \<longrightarrow> 0 < w"
    and "\<forall>h. desiredHeight = Some h \<longrightarrow> 0 < h"
  shows "fst (imageScale_double img desiredWidth desiredHeight vp)
           \<le> width vp * (1 + 1 / 2 ^ 53)\<^sup>2 \<and>
         snd (imageScale_double img desiredWidth desiredHeight vp)
           \<le> height vp * (1 + 1 / 2 ^ 53)\<^sup>2"
proof -
  let ?a = "aspectRatio_rnd round_double img"
  let ?sc = "baseScale_rnd round_double ?a desiredWidth desiredHeight vp"
  let ?f = "maxScaleFactor_rnd round_double vp ?sc"
  have a: "0 < ?a"
    using round_double_bounds [of "real (img_width img) / real (img_height img)"] assms(1,2)
    by (simp add: aspectRatio_rnd_def)
  have sc: "0 < fst ?sc" "0 < snd ?sc"
    using baseScale_rnd_pos [OF a assms(3,5,6)] by simp_all
  have fx: "?f \<le> round_double (width vp / fst ?sc)"
    and fy: "?f \<le> round_double (height vp / snd ?sc)"
    by (simp_all add: maxScaleFactor_rnd_def)
  have "0 < round_double (width vp / fst ?sc)" "0 < round_double (height vp / snd ?sc)"
    using round_double_bounds [of "width vp / fst ?sc"]
      round_double_bounds [of "height vp / snd ?sc"] sc assms(3,4) by simp_all
  then have f: "0 < ?f" by (simp add: maxScaleFactor_rnd_def)
  have "round_double (fst ?sc * ?f) \<le> width vp * (1 + 1 / 2 ^ 53)\<^sup>2"
    by (rule clamp_rounded [OF sc(1) assms(3) f fx])
  moreover have "round_double (snd ?sc * ?f) \<le> height vp * (1 + 1 / 2 ^ 53)\<^sup>2"
    by (rule clamp_rounded [OF sc(2) assms(4) f fy])
  ultimately show ?thesis
    by (simp add: imageScale_double_def imageScale_rnd_def Let_def)
qed

text \<open>
  C5 as stated: the clamped width never exceeds the width of the viewport. It fails in
  the arithmetic of the program: for a square image, \<open>desiredWidth = 25\<close> and a viewport of
  7 by 7 the factor is the double nearest to \<open>7 / 25\<close>, which lies above \<open>7 / 25\<close>, and
  25 times it rounds to \<open>7 + 2 ^ -50\<close>, the double after 7, on both axes.
\<close>

theorem C5_counterexample:
  "imageScale_double \<lparr>img_width = 1, img_height = 1\<rparr> (Some 25) None \<lparr>width = 7, height = 7\<rparr>
     = (7 + 1 / 2 ^ 50, 7 + 1 / 2 ^ 50) \<and>
   width \<lparr>width = 7, height = 7\<rparr>
     < fst (imageScale_double \<lparr>img_width = 1, img_height = 1\<rparr> (Some 25) None
              \<lparr>width = 7, height = 7\<rparr>)"
  by (simp add: imageScale_double_def imageScale_rnd_def baseScale_rnd_def maxScaleFactor_rnd_def
        aspectRatio_rnd_def truthy_def rd_1 rd_25 rd_7_25 rd_prod_normal Let_def)

text \<open>
  C5, amended. For every image (of positive pixel size), any positive \<open>desiredWidth\<close> or
  \<open>desiredHeight\<close> or neither, and any positive viewport, the base scale is multiplied on
  both axes by \<open>min (viewportWidth / scaleX) (viewportHeight / scaleY) 1\<close>. In exact
  arithmetic the resulting width and height do not exceed those of the viewport; in
  double arithmetic they exceed them by rounding at most: each stays within the factor
  \<open>(1 + 2 ^ -53)\<^sup>2\<close> of the viewport's.
\<close>

theorem C5_scale_clamp_rounded:
  assumes "0 < img_width img" and "0 < img_height img"
    and "0 < width vp" and "0 < height vp"
    and "\<forall>w. desiredWidth = Some w \<longrightarrow> 0 < w"
    and "\<forall>h. desiredHeight = Some h \<longrightarrow> 0 < h"
  shows "imageScale img desiredWidth desiredHeight vp =
           (fst (baseScale (aspectRatio img) desiredWidth desiredHeight vp)
              * min (width vp / fst (baseScale (aspectRatio img) desiredWidth desiredHeight vp))
                  (min (height vp / snd (baseScale (aspectRatio img) desiredWidth desiredHeight vp)) 1),
            snd (baseScale (aspectRatio img) desiredWidth desiredHeight vp)
              * min (width vp / fst (baseScale (aspectRatio img) desiredWidth desiredHeight vp))
                  (min (height vp / snd (baseScale (aspectRatio img) desiredWidth desiredHeight vp)) 1)) \<and>
         fst (imageScale img desiredWidth desiredHeight vp) \<le> width vp \<and>
         snd (imageScale img desiredWidth desiredHeight vp) \<le> height vp \<and>
         fst (imageScale_double img desiredWidth desiredHeight vp)
           \<le> width vp * (1 + 1 / 2 ^ 53)\<^sup>2 \<and>
         snd (imageScale_double img desiredWidth desiredHeight vp)
           \<le> height vp * (1 + 1 / 2 ^ 53)\<^sup>2"
  using imageScale_props [OF assms] imageScale_double_bounds [OF assms]
  by (simp add: imageScale_def maxScaleFactor_def Let_def)

theorem C5_scale_clamp_rounded_witness:
  "0 < img_width \<lparr>img_width = 1, img_height = 1\<rparr> \<and>
   0 < img_height \<lparr>img_width = 1, img_height = 1\<rparr> \<and>
   0 < width \<lparr>width = 7, height = 7\<rparr> \<and> 0 < height \<lparr>width = 7, height = 7\<rparr> \<and>
   (0::real) < 25 \<and>
   imageScale \<lparr>img_width = 1, img_height = 1\<rparr> (Some 25) None \<lparr>width = 7, height = 7\<rparr> = (7, 7) \<and>
   fst (imageScale_double \<lparr>img_width = 1, img_height = 1\<rparr> (Some 25) None \<lparr>width = 7, height = 7\<rparr>)
     \<le> width \<lparr>width = 7, height = 7\<rparr> * (1 + 1 / 2 ^ 53)\<^sup>2 \<and>
   snd (imageScale_double \<lparr>img_width = 1, img_height = 1\<rparr> (Some 25) None \<lparr>width = 7, height = 7\<rparr>)
     \<le> height \<lparr>width = 7, height = 7\<rparr> * (1 + 1 / 2 ^ 53)\<^sup>2"
  using C5_scale_clamp_rounded [of "\<lparr>img_width = 1, img_height = 1\<rparr>" "\<lparr>width = 7, height = 7\<rparr>"
          "Some 25" None]
  by (simp add: baseScale_def aspectRatio_def truthy_def)

lemma selectedTargetScale_props:
  assumes "0 < a" and "0 < width v" and "0 < height v" and "0 < snd sc" and "fst sc = a * snd sc"
  shows "fst (selectedTargetScale a v sc) / snd (selectedTargetScale a v sc) = a \<and>
         fst (selectedTargetScale a v sc) \<le> 0.8 * width v \<and>
         snd (selectedTargetScale a v sc) \<le> 0.8 * height v"
proof -
  let ?mw = "width v * 0.8" and ?mh = "height v * 0.8"
  let ?t1 = "if fst sc > ?mw then (?mw, ?mw / a) else sc"
  have t1: "0 < snd ?t1 \<and> fst ?t1 = a * snd ?t1 \<and> fst ?t1 \<le> ?mw"
    using assms by auto
  let ?t2 = "if snd ?t1 > ?mh then (?mh * a, ?mh) else ?t1"
  have t2: "0 < snd ?t2 \<and> fst ?t2 = a * snd ?t2 \<and> fst ?t2 \<le> ?mw \<and> snd ?t2 \<le> ?mh"
  proof (cases "snd ?t1 > ?mh")
    case True
    then have "a * ?mh \<le> a * snd ?t1" using assms(1) by simp
    with t1 have "a * ?mh \<le> ?mw" by simp
    with True assms show ?thesis by (simp add: mult.commute)
  next
    case False
    with t1 show ?thesis by simp
  qed
  have eq: "selectedTargetScale a v sc = ?t2"
    by (simp add: selectedTargetScale_def Let_def)
  from t2 assms(1) show ?thesis unfolding eq by (simp add: mult.commute)
qed

text \<open>
  C6. For every selected image (of positive pixel size, scaled as at render time) with aspect ratio
  \<open>a\<close> and every positive viewport, the target scale after the clamp to 80% of the
  viewport satisfies \<open>targetScaleX / targetScaleY = a\<close>, \<open>targetScaleX \<le> 0.8 * width\<close> and
  \<open>targetScaleY \<le> 0.8 * height\<close>.
\<close>

theorem C6_aspect_preserved:
  assumes "0 < img_width img" and "0 < img_height img"
    and "0 < width vp" and "0 < height vp"
    and "0 < width v" and "0 < height v"
    and "\<forall>w. desiredWidth = Some w \<longrightarrow> 0 < w"
    and "\<forall>h. desiredHeight = Some h \<longrightarrow> 0 < h"
  shows "fst (selectedScale img desiredWidth desiredHeight vp v)
           / snd (selectedScale img desiredWidth desiredHeight vp v) = aspectRatio img \<and>
         fst (selectedScale img desiredWidth desiredHeight vp v) \<le> 0.8 * width v \<and>
         snd (selectedScale img desiredWidth desiredHeight vp v) \<le> 0.8 * height v"
proof -
  have a: "0 < aspectRatio img" using assms(1,2) by (rule aspectRatio_pos)
  have sc: "0 < snd (imageScale img desiredWidth desiredHeight vp)"
    "fst (imageScale img desiredWidth desiredHeight vp)
       = aspectRatio img * snd (imageScale img desiredWidth desiredHeight vp)"
    using imageScale_props [OF assms(1-4) assms(7,8)] by simp_all
  show ?thesis unfolding selectedScale_def
    by (rule selectedTargetScale_props [OF a assms(5,6) sc])
qed

theorem C6_aspect_preserved_witness:
  "0 < img_width \<lparr>img_width = 2, img_height = 1\<rparr> \<and>
   0 < img_height \<lparr>img_width = 2, img_height = 1\<rparr> \<and>
   0 < width \<lparr>width = 10, height = 4\<rparr> \<and> 0 < height \<lparr>width = 10, height = 4\<rparr> \<and>
   0 < width \<lparr>width = 5, height = 2\<rparr> \<and> 0 < height \<lparr>width = 5, height = 2\<rparr> \<and>
   (0::real) < 12 \<and>
   selectedScale \<lparr>img_width = 2, img_height = 1\<rparr> (Some 12) None \<lparr>width = 10, height = 4\<rparr>
      \<lparr>width = 5, height = 2\<rparr> = (3.2, 1.6) \<and>
   fst (selectedScale \<lparr>img_width = 2, img_height = 1\<rparr> (Some 12) None \<lparr>width = 10, height = 4\<rparr>
      \<lparr>width = 5, height = 2\<rparr>)
    / snd (selectedScale \<lparr>img_width = 2, img_height = 1\<rparr> (Some 12) None \<lparr>width = 10, height = 4\<rparr>
      \<lparr>width = 5, height = 2\<rparr>) = aspectRatio \<lparr>img_width = 2, img_height = 1\<rparr>"
proof -
  have "selectedScale \<lparr>img_width = 2, img_height = 1\<rparr> (Some 12) None \<lparr>width = 10, height = 4\<rparr>
      \<lparr>width = 5, height = 2\<rparr> = (3.2, 1.6)"
    by (simp add: selectedScale_def selectedTargetScale_def imageScale_def maxScaleFactor_def
          baseScale_def aspectRatio_def truthy_def Let_def)
  with C6_aspect_preserved [of "\<lparr>img_width = 2, img_height = 1\<rparr>" "\<lparr>width = 10, height = 4\<rparr>"
          "\<lparr>width = 5, height = 2\<rparr>" "Some 12" None]
  show ?thesis by simp
qed

subsection \<open>The glass mesh\<close>

text \<open>
  C7 as stated: with the named sub-geometry absent and no scale override, the scale of
  the glass mesh is 1. It fails: for a model without the node \<open>Cube\<close> and a viewport 2
  wide the frame sets the scale to 0.15.
\<close>

theorem C7_counterexample:
  "lookup_geometry
      [''Sphere'' \<mapsto> \<lparr>node_geometry = Some \<lparr>boundingBox_min_x = 0, boundingBox_max_x = 2\<rparr>\<rparr>]
      (geometryKey Bar) = None \<and>
   nullish (Map.empty ''scale'') \<and>
   glass_scale
      [''Sphere'' \<mapsto> \<lparr>node_geometry = Some \<lparr>boundingBox_min_x = 0, boundingBox_max_x = 2\<rparr>\<rparr>]
      (geometryKey Bar) Map.empty \<lparr>width = 2, height = 1\<rparr> = Num 0.15 \<and>
   glass_scale
      [''Sphere'' \<mapsto> \<lparr>node_geometry = Some \<lparr>boundingBox_min_x = 0, boundingBox_max_x = 2\<rparr>\<rparr>]
      (geometryKey Bar) Map.empty \<lparr>width = 2, height = 1\<rparr> \<noteq> Num 1"
  by (simp add: lookup_geometry_def geometryKey_def nullish_def glass_scale_def useFrame_scale_def
        geoWidthRef_def geoWidth_effect_def mesh_scale_prop_def Let_def)

text \<open>
  C7, amended. If the named sub-geometry is absent from the loaded model and no scale
  override is given, the geometry width used for sizing keeps its initial value 1, and
  the frame sets the scale of the glass mesh to \<open>min 0.15 (0.9 * viewport width)\<close>, which
  is never 1. The effect and the frame update are total: no branch of them fails.
\<close>

theorem C7_missing_geometry:
  assumes "lookup_geometry nodes k = None" and "nullish (modeProps ''scale'')"
  shows "geoWidthRef nodes k = 1 \<and>
         glass_scale nodes k modeProps v = Num (min 0.15 (0.9 * width v)) \<and>
         glass_scale nodes k modeProps v \<noteq> Num 1"
  using assms
  by (simp add: glass_scale_def useFrame_scale_def geoWidthRef_def geoWidth_effect_def Let_def
        min_def mult.commute)

theorem C7_missing_geometry_witness:
  "lookup_geometry Map.empty ''Cylinder'' = None \<and> nullish (Map.empty ''scale'') \<and>
   geoWidthRef Map.empty ''Cylinder'' = 1 \<and>
   glass_scale Map.empty ''Cylinder'' Map.empty \<lparr>width = 0.1, height = 1\<rparr> = Num 0.09"
proof -
  have h1: "lookup_geometry Map.empty ''Cylinder'' = None" by (simp add: lookup_geometry_def)
  have h2: "nullish ((Map.empty :: string \<rightharpoonup> jsval) ''scale'')" by (simp add: nullish_def)
  from C7_missing_geometry [OF h1 h2, of "\<lparr>width = 0.1, height = 1\<rparr>"] h1 h2
  show ?thesis by simp
qed

text \<open>
  C8 as stated: in bar mode without overrides the thickness of the glass material is 5.
  It fails: \<open>Bar\<close> puts its own \<open>thickness: 10\<close> under the overrides, and the fallback 5
  of \<open>ModeWrapper\<close> is not reached.
\<close>

theorem C8_counterexample:
  "scene_material (FluidGlass ''bar'' no_overrides no_overrides no_overrides) ''thickness''
     = Some (Num 10) \<and>
   scene_material (FluidGlass ''bar'' no_overrides no_overrides no_overrides) ''thickness''
     \<noteq> Some (Num 5)"
  by (simp add: FluidGlass_def rawOverrides_def Wrapper_def wrapper_modeProps_def no_overrides_def
        material_def extraMat_def defaultMat_def coalesce_def Let_def map_add_def)

text \<open>
  C8, amended. In bar mode with no per-mode overrides the glass material has ior 1.15,
  thickness 10, anisotropy 0.01, chromaticAberration 0.1, transmission 1, roughness 0,
  color white, attenuation color white and attenuation distance 0.25 (and the buffer
  texture), and nothing else.
\<close>

theorem C8_bar_material:
  "scene_wrapper (FluidGlass ''bar'' lp \<lparr>navItems = ni, props = Map.empty\<rparr> cp) = Bar \<and>
   scene_material (FluidGlass ''bar'' lp \<lparr>navItems = ni, props = Map.empty\<rparr> cp) =
     [''buffer'' \<mapsto> BufferTexture,
      ''ior'' \<mapsto> Num 1.15,
      ''thickness'' \<mapsto> Num 10,
      ''anisotropy'' \<mapsto> Num 0.01,
      ''chromaticAberration'' \<mapsto> Num 0.1,
      ''transmission'' \<mapsto> Num 1,
      ''roughness'' \<mapsto> Num 0,
      ''color'' \<mapsto> Str ''#ffffff'',
      ''attenuationColor'' \<mapsto> Str ''#ffffff'',
      ''attenuationDistance'' \<mapsto> Num 0.25]"
  by (auto simp add: FluidGlass_def rawOverrides_def Wrapper_def wrapper_modeProps_def
        material_def extraMat_def defaultMat_def coalesce_def Let_def map_add_def fun_eq_iff)

subsection \<open>Idle floating\<close>

lemma idle_offsets_x_z: "\<bar>floatOffsetX t i\<bar> \<le> 0.1 \<and> \<bar>floatOffsetZ t i\<bar> \<le> 0.2"
  by (simp add: floatOffsetX_def floatOffsetZ_def abs_mult)

text \<open>
  C9. The idle offsets are to stay within about 0.1 to 0.2 world units on every axis.
  The offsets on x and z do (\<open>idle_offsets_x_z\<close>); the offset on y is the bare cosine:
  for the image of index 0 at time 0 it is 1.
\<close>

theorem C9_idle_offset_y:
  "floatOffsetY 0 0 = 1 \<and> targetPosition (0, 0, 0) 0 0 = (0, 1, 0) \<and> 0.2 < \<bar>floatOffsetY 0 0\<bar>"
  by (simp add: floatOffsetY_def floatOffsetX_def floatOffsetZ_def targetPosition_def)

subsection \<open>Navigation items\<close>

text \<open>
  C10. If the override object of the mode gives no \<open>navItems\<close>, the navigation list is
  Home, About, Contact with the links \<open>#home\<close>, \<open>#about\<close>, \<open>#contact\<close>, in this order;
  a list that is given replaces the default entirely.
\<close>

theorem C10_default_navItems:
  "(navItems (rawOverrides mode lensProps barProps cubeProps) = None \<longrightarrow>
      scene_navItems (FluidGlass mode lensProps barProps cubeProps) =
        [\<lparr>label = ''Home'', link = ''#home''\<rparr>,
         \<lparr>label = ''About'', link = ''#about''\<rparr>,
         \<lparr>label = ''Contact'', link = ''#contact''\<rparr>]) \<and>
   (\<forall>xs. navItems (rawOverrides mode lensProps barProps cubeProps) = Some xs \<longrightarrow>
      scene_navItems (FluidGlass mode lensProps barProps cubeProps) = xs)"
  by (simp add: FluidGlass_def default_navItems_def Let_def)

theorem C10_default_navItems_witness:
  "navItems (rawOverrides ''bar'' App_lensProps no_overrides no_overrides) = None \<and>
   scene_navItems (FluidGlass ''bar'' App_lensProps no_overrides no_overrides) =
     [\<lparr>label = ''Home'', link = ''#home''\<rparr>,
      \<lparr>label = ''About'', link = ''#about''\<rparr>,
      \<lparr>label = ''Contact'', link = ''#contact''\<rparr>] \<and>
   navItems (rawOverrides ''lens'' App_lensProps no_overrides no_overrides) =
     Some [\<lparr>label = ''Home'', link = ''#home''\<rparr>,
           \<lparr>label = ''About'', link = ''#about''\<rparr>,
           \<lparr>label = ''Projects'', link = ''#projects''\<rparr>,
           \<lparr>label = ''Contact'', link = ''#contact''\<rparr>] \<and>
   scene_navItems App =
     [\<lparr>label = ''Home'', link = ''#home''\<rparr>,
      \<lparr>label = ''About'', link = ''#about''\<rparr>,
      \<lparr>label = ''Projects'', link = ''#projects''\<rparr>,
      \<lparr>label = ''Contact'', link = ''#contact''\<rparr>]"
  using C10_default_navItems [of "''bar''" App_lensProps no_overrides no_overrides]
        C10_default_navItems [of "''lens''" App_lensProps no_overrides no_overrides]
  by (simp add: rawOverrides_def App_lensProps_def no_overrides_def App_def)

end
